theory Spec2Isabelle
  imports Complex_Main
begin

section \<open>Python floats and tensors\<close>

text \<open>
  A Python float is a finite value or one of the three special values of IEEE 754.
  Finite arithmetic is taken exact (rounding and overflow are not modelled); the special
  values follow IEEE 754, which is what \<^verbatim>\<open>math.isnan\<close> and \<^verbatim>\<open>math.isinf\<close>
  of \<^verbatim>\<open>train.py\<close> test for.
\<close>

datatype pyfloat = Fin real | PInf | NInf | NaN

fun isnan :: "pyfloat \<Rightarrow> bool" where
  "isnan NaN = True"
| "isnan _ = False"

fun isinf :: "pyfloat \<Rightarrow> bool" where
  "isinf PInf = True"
| "isinf NInf = True"
| "isinf _ = False"

fun fneg :: "pyfloat \<Rightarrow> pyfloat" where
  "fneg (Fin a) = Fin (- a)"
| "fneg PInf = NInf"
| "fneg NInf = PInf"
| "fneg NaN = NaN"

fun fabs :: "pyfloat \<Rightarrow> pyfloat" where
  "fabs (Fin a) = Fin \<bar>a\<bar>"
| "fabs PInf = PInf"
| "fabs NInf = PInf"
| "fabs NaN = NaN"

fun fadd :: "pyfloat \<Rightarrow> pyfloat \<Rightarrow> pyfloat" where
  "fadd NaN _ = NaN"
| "fadd _ NaN = NaN"
| "fadd (Fin a) (Fin b) = Fin (a + b)"
| "fadd PInf NInf = NaN"
| "fadd NInf PInf = NaN"
| "fadd PInf _ = PInf"
| "fadd NInf _ = NInf"
| "fadd _ PInf = PInf"
| "fadd _ NInf = NInf"

text \<open>An infinity times a finite value: the sign decides, and zero gives NaN.\<close>

definition inf_times :: "pyfloat \<Rightarrow> real \<Rightarrow> pyfloat" where
  "inf_times i a = (if a = 0 then NaN else if 0 < a then i else fneg i)"

fun fmul :: "pyfloat \<Rightarrow> pyfloat \<Rightarrow> pyfloat" where
  "fmul NaN _ = NaN"
| "fmul _ NaN = NaN"
| "fmul (Fin a) (Fin b) = Fin (a * b)"
| "fmul PInf (Fin b) = inf_times PInf b"
| "fmul NInf (Fin b) = inf_times NInf b"
| "fmul (Fin a) PInf = inf_times PInf a"
| "fmul (Fin a) NInf = inf_times NInf a"
| "fmul PInf PInf = PInf"
| "fmul NInf NInf = PInf"
| "fmul PInf NInf = NInf"
| "fmul NInf PInf = NInf"

text \<open>
  Division by \<^verbatim>\<open>batch + 1.0\<close>, a finite value that is at least one: the only
  division of the training loop.
\<close>

fun fdiv_count :: "pyfloat \<Rightarrow> real \<Rightarrow> pyfloat" where
  "fdiv_count (Fin a) c = Fin (a / c)"
| "fdiv_count x c = x"

text \<open>
  A tensor is a list of channels, each channel the list of its values over the batch and the
  image plane. The boundary mask has one channel, which torch broadcasts over the channels of
  the other operand; \<open>plane\<close> is that single channel. Shapes are those the data loader
  delivers, so the operands of a product have the same plane size.
\<close>

type_synonym plane = "pyfloat list"
type_synonym tensor = "plane list"

definition plane_mul :: "plane \<Rightarrow> plane \<Rightarrow> plane" where
  "plane_mul xs ys = map2 fmul xs ys"

text \<open>\<^verbatim>\<open>t * boundaries\<close> and \<^verbatim>\<open>boundaries * t\<close>.\<close>

definition mul_boundaries :: "tensor \<Rightarrow> plane \<Rightarrow> tensor" where
  "mul_boundaries t b = map (\<lambda>ch. plane_mul ch b) t"

definition boundaries_mul :: "plane \<Rightarrow> tensor \<Rightarrow> tensor" where
  "boundaries_mul b t = map (\<lambda>ch. plane_mul b ch) t"

text \<open>\<^verbatim>\<open>torch.abs\<close>.\<close>

definition torch_abs :: "tensor \<Rightarrow> tensor" where
  "torch_abs t = map (map fabs) t"

section \<open>Command line of train.py\<close>

text \<open>
  The arguments the training loop reads. \<^verbatim>\<open>--trained_model_path\<close> defaults to
  \<^verbatim>\<open>None\<close>; \<^verbatim>\<open>--number_epoch\<close> is required.
\<close>

record args =
  dcl_weight :: pyfloat
  sfl_weight :: pyfloat
  max_lr :: real
  min_lr :: real
  num_iter :: int
  validation_interval :: int
  display_interval :: int
  load_trained_model :: bool
  number_epoch :: int
  trained_model_path :: "string option"

definition default_args :: "int \<Rightarrow> args" where
  "default_args n =
     \<lparr> dcl_weight = Fin 5, sfl_weight = Fin 20, max_lr = 1 / 1000, min_lr = 1 / 10000,
       num_iter = 1000, validation_interval = 1, display_interval = 10,
       load_trained_model = False, number_epoch = n, trained_model_path = None \<rparr>"

text \<open>Lines 192 to 195 of train.py: the weight of the depth consistency loss in an epoch.\<close>

definition depth_consistency_weight :: "args \<Rightarrow> int \<Rightarrow> pyfloat" where
  "depth_consistency_weight a epoch = (if epoch \<le> 20 then Fin (1 / 10) else dcl_weight a)"

section \<open>Cyclic learning rate\<close>

text \<open>
  Modelled from the spec: \<^verbatim>\<open>scheduler.CyclicLR\<close> (the module \<^verbatim>\<open>scheduler\<close> is not
  among the sources). The spec: a triangular waveform with a minimum rate, a maximum rate
  and a half-cycle length in iterations; the rate increases linearly from the minimum to the
  maximum over the first half-cycle, then decreases linearly back to the minimum over the
  second half-cycle, repeating indefinitely; it is a function of the cumulative iteration
  count alone. The half-cycle length is positive.
\<close>

definition cyclic_lr :: "real \<Rightarrow> real \<Rightarrow> int \<Rightarrow> int \<Rightarrow> real" where
  "cyclic_lr base_lr top_lr step_size it =
     (let pos = it mod (2 * step_size) in
      if pos \<le> step_size
      then base_lr + (top_lr - base_lr) * (real_of_int pos / real_of_int step_size)
      else top_lr - (top_lr - base_lr) * (real_of_int (pos - step_size) / real_of_int step_size))"

section \<open>External collaborators\<close>

text \<open>
  One batch of the data loader (the folder and file names, which only label the display,
  are left out).
\<close>

record batch =
  colors_1 :: tensor
  colors_2 :: tensor
  sparse_depths_1 :: tensor
  sparse_depths_2 :: tensor
  sparse_depth_masks_1 :: tensor
  sparse_depth_masks_2 :: tensor
  sparse_flows_1 :: tensor
  sparse_flows_2 :: tensor
  sparse_flow_masks_1 :: tensor
  sparse_flow_masks_2 :: tensor
  boundaries :: plane
  rotations_1_wrt_2 :: tensor
  rotations_2_wrt_1 :: tensor
  translations_1_wrt_2 :: tensor
  translations_2_wrt_1 :: tensor
  intrinsics :: tensor

text \<open>
  The modules \<^verbatim>\<open>models\<close>, \<^verbatim>\<open>layers\<close>, \<^verbatim>\<open>losses\<close> and torch itself are
  parameters of the model. \<open>'w\<close> is everything torch mutates: the weights of the network,
  their gradients and the state of the Adam optimizer. \<open>backward\<close> is
  \<^verbatim>\<open>loss.backward()\<close> for the loss graph of a batch under the depth consistency
  weight of the epoch.
\<close>

record 'w collab =
  depth_estimation_model :: "'w \<Rightarrow> tensor \<Rightarrow> tensor"
  depth_scaling_layer :: "tensor \<Rightarrow> tensor \<Rightarrow> tensor \<Rightarrow> tensor \<times> tensor"
  flow_from_depth_layer :: "tensor \<Rightarrow> plane \<Rightarrow> tensor \<Rightarrow> tensor \<Rightarrow> tensor \<Rightarrow> tensor"
  depth_warping_layer ::
    "tensor \<Rightarrow> tensor \<Rightarrow> plane \<Rightarrow> tensor \<Rightarrow> tensor \<Rightarrow> tensor \<Rightarrow> tensor \<times> tensor"
  sparse_flow_loss_function :: "tensor \<Rightarrow> tensor \<Rightarrow> tensor \<Rightarrow> pyfloat"
  depth_consistency_loss_function :: "tensor \<Rightarrow> tensor \<Rightarrow> tensor \<Rightarrow> tensor \<Rightarrow> pyfloat"
  zero_grad :: "'w \<Rightarrow> 'w"
  backward :: "batch \<Rightarrow> pyfloat \<Rightarrow> 'w \<Rightarrow> 'w"
  clip_grad_norm :: "pyfloat \<Rightarrow> 'w \<Rightarrow> 'w"
  optimizer_step :: "'w \<Rightarrow> 'w"
  load_state_dict :: "'w \<Rightarrow> 'w \<Rightarrow> 'w"

section \<open>Forward pass and losses of one frame pair\<close>

text \<open>
  What a forward pass computes: the tensors handed to the network, to the scaling layer and
  to the sparse flow loss function, the two loss terms of each loss, and the scalars.
\<close>

record fwd =
  net_input_1 :: tensor
  net_input_2 :: tensor
  scaling_input_1 :: tensor
  scaling_input_2 :: tensor
  scaled_depth_maps_1 :: tensor
  scaled_depth_maps_2 :: tensor
  sfl_input_1 :: "tensor \<times> tensor \<times> tensor"
  sfl_input_2 :: "tensor \<times> tensor \<times> tensor"
  sfl_term_1 :: pyfloat
  sfl_term_2 :: pyfloat
  dcl_term_1 :: pyfloat
  dcl_term_2 :: pyfloat
  sparse_flow_loss :: pyfloat
  depth_consistency_loss :: pyfloat
  loss :: pyfloat

text \<open>
  Lines 230 to 264 of train.py (and 385 to 419, the same text in the validation loop), from
  the two tensors \<open>d1\<close>, \<open>d2\<close> that the scaling layer receives.
\<close>

definition losses_of_depths ::
  "'w collab \<Rightarrow> pyfloat \<Rightarrow> pyfloat \<Rightarrow> batch \<Rightarrow> tensor \<Rightarrow> tensor \<Rightarrow> tensor \<Rightarrow> tensor \<Rightarrow> fwd" where
  "losses_of_depths T sfw dcw b c1 c2 d1 d2 =
     (let bd = boundaries b;
          scaled_1 = fst (depth_scaling_layer T d1 (sparse_depths_1 b) (sparse_depth_masks_1 b));
          scaled_2 = fst (depth_scaling_layer T d2 (sparse_depths_2 b) (sparse_depth_masks_2 b));
          flows_from_depth_1 = flow_from_depth_layer T scaled_1 bd
             (translations_1_wrt_2 b) (rotations_1_wrt_2 b) (intrinsics b);
          flows_from_depth_2 = flow_from_depth_layer T scaled_2 bd
             (translations_2_wrt_1 b) (rotations_2_wrt_1 b) (intrinsics b);
          masks_1 = mul_boundaries (sparse_flow_masks_1 b) bd;
          masks_2 = mul_boundaries (sparse_flow_masks_2 b) bd;
          flows_1 = mul_boundaries (sparse_flows_1 b) bd;
          flows_2 = mul_boundaries (sparse_flows_2 b) bd;
          dense_1 = mul_boundaries flows_from_depth_1 bd;
          dense_2 = mul_boundaries flows_from_depth_2 bd;
          s1 = sparse_flow_loss_function T flows_1 dense_1 masks_1;
          s2 = sparse_flow_loss_function T flows_2 dense_2 masks_2;
          sfl = fmul (fmul sfw (Fin (1 / 2))) (fadd s1 s2);
          warp_1 = depth_warping_layer T scaled_1 scaled_2 bd
             (translations_1_wrt_2 b) (rotations_1_wrt_2 b) (intrinsics b);
          warp_2 = depth_warping_layer T scaled_2 scaled_1 bd
             (translations_2_wrt_1 b) (rotations_2_wrt_1 b) (intrinsics b);
          t1 = depth_consistency_loss_function T scaled_1 (fst warp_1) (snd warp_1) (intrinsics b);
          t2 = depth_consistency_loss_function T scaled_2 (fst warp_2) (snd warp_2) (intrinsics b);
          dcl = fmul (fmul dcw (Fin (1 / 2))) (fadd t1 t2)
      in \<lparr> net_input_1 = c1, net_input_2 = c2,
           scaling_input_1 = d1, scaling_input_2 = d2,
           scaled_depth_maps_1 = scaled_1, scaled_depth_maps_2 = scaled_2,
           sfl_input_1 = (flows_1, dense_1, masks_1), sfl_input_2 = (flows_2, dense_2, masks_2),
           sfl_term_1 = s1, sfl_term_2 = s2, dcl_term_1 = t1, dcl_term_2 = t2,
           sparse_flow_loss = sfl, depth_consistency_loss = dcl, loss = fadd dcl sfl \<rparr>)"

text \<open>Lines 224 to 264: the forward pass of a training batch.\<close>

definition train_forward :: "'w collab \<Rightarrow> 'w \<Rightarrow> pyfloat \<Rightarrow> pyfloat \<Rightarrow> batch \<Rightarrow> fwd" where
  "train_forward T w sfw dcw b =
     (let c1 = boundaries_mul (boundaries b) (colors_1 b);
          c2 = boundaries_mul (boundaries b) (colors_2 b);
          predicted_depth_maps_1 = depth_estimation_model T w c1;
          predicted_depth_maps_2 = depth_estimation_model T w c2
      in losses_of_depths T sfw dcw b c1 c2 predicted_depth_maps_1 predicted_depth_maps_2)"

text \<open>Lines 379 to 419: the forward pass of a validation batch.\<close>

definition validation_forward :: "'w collab \<Rightarrow> 'w \<Rightarrow> pyfloat \<Rightarrow> pyfloat \<Rightarrow> batch \<Rightarrow> fwd" where
  "validation_forward T w sfw dcw b =
     (let c1 = boundaries_mul (boundaries b) (colors_1 b);
          c2 = boundaries_mul (boundaries b) (colors_2 b);
          predicted_depth_maps_1 = depth_estimation_model T w c1;
          predicted_depth_maps_2 = depth_estimation_model T w c2
      in losses_of_depths T sfw dcw b c1 c2
           (torch_abs predicted_depth_maps_1) (torch_abs predicted_depth_maps_2))"

section \<open>The training program\<close>

datatype error = OSError | TypeError | NameError | ZeroDivisionError

datatype call = ZeroGrad | Backward | ClipGradNorm pyfloat | OptStep

text \<open>
  Modelled from the spec: \<^verbatim>\<open>utils.save_model\<close> (the module \<^verbatim>\<open>utils\<close> is not among
  the sources). The spec: checkpoint files retain the optimizer step count and the epoch
  number, with the model weights and the optimizer state. The snapshot of the weights and of
  the optimizer is a value of \<open>'w\<close>; train.py reads the keys \<^verbatim>\<open>step\<close>,
  \<^verbatim>\<open>epoch\<close> and \<^verbatim>\<open>model\<close> back.
\<close>

record 'w checkpoint =
  ck_model :: 'w
  ck_epoch :: int
  ck_step :: int
  ck_validation_loss :: pyfloat

definition save_model :: "'w \<Rightarrow> int \<Rightarrow> int \<Rightarrow> pyfloat \<Rightarrow> 'w checkpoint" where
  "save_model w e s v = \<lparr> ck_model = w, ck_epoch = e, ck_step = s, ck_validation_loss = v \<rparr>"

text \<open>
  The variables of the script that the loops change. The three running means are unbound
  until their first assignment (\<open>None\<close>); \<open>calls\<close> is the log of the calls made to
  torch, \<open>sched_calls\<close> the log of the iteration counts given to the scheduler, and
  \<open>saved\<close> the checkpoints written so far.
\<close>

record 'w tstate =
  world :: 'w
  calls :: "call list"
  sched_calls :: "int list"
  lr :: real
  step :: int
  flag :: int
  mean_loss :: "pyfloat option"
  mean_depth_consistency_loss :: "pyfloat option"
  mean_sparse_flow_loss :: "pyfloat option"
  saved :: "'w checkpoint list"

definition do_zero_grad :: "'w collab \<Rightarrow> 'w tstate \<Rightarrow> 'w tstate" where
  "do_zero_grad T st = st\<lparr> world := zero_grad T (world st), calls := calls st @ [ZeroGrad] \<rparr>"

definition do_backward :: "'w collab \<Rightarrow> batch \<Rightarrow> pyfloat \<Rightarrow> 'w tstate \<Rightarrow> 'w tstate" where
  "do_backward T b dcw st =
     st\<lparr> world := backward T b dcw (world st), calls := calls st @ [Backward] \<rparr>"

definition do_clip_grad_norm :: "'w collab \<Rightarrow> pyfloat \<Rightarrow> 'w tstate \<Rightarrow> 'w tstate" where
  "do_clip_grad_norm T m st =
     st\<lparr> world := clip_grad_norm T m (world st), calls := calls st @ [ClipGradNorm m] \<rparr>"

definition do_optimizer_step :: "'w collab \<Rightarrow> 'w tstate \<Rightarrow> 'w tstate" where
  "do_optimizer_step T st =
     st\<lparr> world := optimizer_step T (world st), calls := calls st @ [OptStep] \<rparr>"

text \<open>Line 203: \<^verbatim>\<open>lr_scheduler.batch_step(batch_iteration=step)\<close>.\<close>

definition batch_step :: "args \<Rightarrow> 'w tstate \<Rightarrow> 'w tstate" where
  "batch_step a st =
     st\<lparr> sched_calls := sched_calls st @ [step st],
         lr := cyclic_lr (min_lr a) (max_lr a) (num_iter a) (step st) \<rparr>"

text \<open>\<^verbatim>\<open>(mean * batch + cur) / (batch + 1.0)\<close>.\<close>

definition running_mean :: "pyfloat \<Rightarrow> int \<Rightarrow> pyfloat \<Rightarrow> pyfloat" where
  "running_mean m batch cur =
     fdiv_count (fadd (fmul m (Fin (real_of_int batch))) cur) (real_of_int batch + 1)"

text \<open>
  Lines 284 to 287 and 427 to 431: the three running means are read and assigned again;
  reading an unbound one raises NameError.
\<close>

definition update_means :: "int \<Rightarrow> fwd \<Rightarrow> 'w tstate \<Rightarrow> error + 'w tstate" where
  "update_means batch f st =
     (case mean_loss st of
        None \<Rightarrow> Inl NameError
      | Some m \<Rightarrow>
          (case mean_depth_consistency_loss st of
             None \<Rightarrow> Inl NameError
           | Some md \<Rightarrow>
               (case mean_sparse_flow_loss st of
                  None \<Rightarrow> Inl NameError
                | Some ms \<Rightarrow>
                    Inr (st\<lparr> mean_loss := Some (running_mean m batch (loss f)),
                             mean_depth_consistency_loss :=
                               Some (running_mean md batch (depth_consistency_loss f)),
                             mean_sparse_flow_loss :=
                               Some (running_mean ms batch (sparse_flow_loss f)) \<rparr>))))"

text \<open>Lines 280 to 282 and 423 to 425.\<close>

definition set_means :: "fwd \<Rightarrow> 'w tstate \<Rightarrow> 'w tstate" where
  "set_means f st =
     st\<lparr> mean_loss := Some (loss f),
         mean_depth_consistency_loss := Some (depth_consistency_loss f),
         mean_sparse_flow_loss := Some (sparse_flow_loss f) \<rparr>"

text \<open>
  Lines 298 to 300 and 456 to 458: the three means are read for the log; NameError when
  one is unbound.
\<close>

definition read_means :: "'w tstate \<Rightarrow> error + 'w tstate" where
  "read_means st =
     (if mean_loss st = None \<or> mean_depth_consistency_loss st = None
         \<or> mean_sparse_flow_loss st = None
      then Inl NameError else Inr st)"

text \<open>
  Lines 303 and 434: \<^verbatim>\<open>batch % display_each\<close> raises ZeroDivisionError for a zero
  interval; the display itself only draws.
\<close>

definition display :: "args \<Rightarrow> 'w tstate \<Rightarrow> error + 'w tstate" where
  "display a st = (if display_interval a = 0 then Inl ZeroDivisionError else Inr st)"

text \<open>
  Lines 203 to 345: one iteration of the training loop, for the batch of index \<open>batch\<close>.
  The branch of a non-finite loss ends in \<^verbatim>\<open>continue\<close>.
\<close>

definition train_batch ::
  "'w collab \<Rightarrow> args \<Rightarrow> pyfloat \<Rightarrow> int \<Rightarrow> batch \<Rightarrow> 'w tstate \<Rightarrow> error + 'w tstate" where
  "train_batch T a dcw batch b st =
     (let st1 = batch_step a st;
          f = train_forward T (world st1) (sfl_weight a) dcw b
      in if isnan (loss f) \<or> isinf (loss f)
         then Inr (do_optimizer_step T (do_zero_grad T (do_backward T b dcw (do_zero_grad T st1))))
         else
           (let st2 = st1\<lparr> flag := flag st1 + 1 \<rparr>;
                st3 = do_optimizer_step T
                        (do_clip_grad_norm T (Fin 10) (do_backward T b dcw (do_zero_grad T st2)))
            in case (if batch = 0 \<or> flag st3 = 1 then Inr (set_means f st3)
                     else update_means batch f st3) of
                 Inl e \<Rightarrow> Inl e
               | Inr st4 \<Rightarrow>
                   (case read_means (st4\<lparr> step := step st4 + 1 \<rparr>) of
                      Inl e \<Rightarrow> Inl e
                    | Inr st5 \<Rightarrow> display a st5)))"

fun train_batches ::
  "'w collab \<Rightarrow> args \<Rightarrow> pyfloat \<Rightarrow> int \<Rightarrow> batch list \<Rightarrow> 'w tstate \<Rightarrow> error + 'w tstate" where
  "train_batches T a dcw batch [] st = Inr st"
| "train_batches T a dcw batch (b # bs) st =
     (case train_batch T a dcw batch b st of
        Inl e \<Rightarrow> Inl e
      | Inr st' \<Rightarrow> train_batches T a dcw (batch + 1) bs st')"

text \<open>Lines 362 to 458: one iteration of the validation loop.\<close>

definition validation_batch ::
  "'w collab \<Rightarrow> args \<Rightarrow> pyfloat \<Rightarrow> int \<Rightarrow> batch \<Rightarrow> 'w tstate \<Rightarrow> error + 'w tstate" where
  "validation_batch T a dcw batch b st =
     (let f = validation_forward T (world st) (sfl_weight a) dcw b
      in case (if \<not> isnan (loss f)
               then (if batch = 0 then Inr (set_means f st) else update_means batch f st)
               else Inr st) of
           Inl e \<Rightarrow> Inl e
         | Inr st1 \<Rightarrow>
             (case display a st1 of
                Inl e \<Rightarrow> Inl e
              | Inr st2 \<Rightarrow> read_means st2))"

fun validation_batches ::
  "'w collab \<Rightarrow> args \<Rightarrow> pyfloat \<Rightarrow> int \<Rightarrow> batch list \<Rightarrow> 'w tstate \<Rightarrow> error + 'w tstate" where
  "validation_batches T a dcw batch [] st = Inr st"
| "validation_batches T a dcw batch (b # bs) st =
     (case validation_batch T a dcw batch b st of
        Inl e \<Rightarrow> Inl e
      | Inr st' \<Rightarrow> validation_batches T a dcw (batch + 1) bs st')"

text \<open>
  Lines 184 to 465: one pass of the epoch loop. The training loader shuffles, so its
  batches depend on the epoch; the validation loader does not.
\<close>

definition run_epoch ::
  "'w collab \<Rightarrow> args \<Rightarrow> (int \<Rightarrow> batch list) \<Rightarrow> batch list \<Rightarrow> int \<Rightarrow> 'w tstate
     \<Rightarrow> error + 'w tstate" where
  "run_epoch T a train_loader validation_loader epoch st =
     (let dcw = depth_consistency_weight a epoch
      in case train_batches T a dcw 0 (train_loader epoch) st of
           Inl e \<Rightarrow> Inl e
         | Inr st1 \<Rightarrow>
             if validation_interval a = 0 then Inl ZeroDivisionError
             else if epoch mod validation_interval a \<noteq> 0 then Inr st1
             else (case validation_batches T a dcw 0 validation_loader st1 of
                     Inl e \<Rightarrow> Inl e
                   | Inr st2 \<Rightarrow>
                       (case mean_sparse_flow_loss st2 of
                          None \<Rightarrow> Inl NameError
                        | Some v \<Rightarrow>
                            Inr (st2\<lparr> saved := saved st2
                                   @ [save_model (world st2) (epoch + 1) (step st2) v] \<rparr>))))"

text \<open>Line 183: \<^verbatim>\<open>for epoch in range(epoch, n_epochs + 1)\<close>, over the list of epochs.\<close>

fun epoch_loop ::
  "'w collab \<Rightarrow> args \<Rightarrow> (int \<Rightarrow> batch list) \<Rightarrow> batch list \<Rightarrow> int list \<Rightarrow> 'w tstate
     \<Rightarrow> error + 'w tstate" where
  "epoch_loop T a train_loader validation_loader [] st = Inr st"
| "epoch_loop T a train_loader validation_loader (epoch # es) st =
     (case run_epoch T a train_loader validation_loader epoch st of
        Inl e \<Rightarrow> Inl e
      | Inr st' \<Rightarrow> epoch_loop T a train_loader validation_loader es st')"

text \<open>
  Lines 154 to 181: the state before the epoch loop, from the first epoch, the step count
  and the weights. Adam is created with the maximum rate.
\<close>

definition initial_state :: "args \<Rightarrow> int \<Rightarrow> 'w \<Rightarrow> 'w tstate" where
  "initial_state a s w =
     \<lparr> world = w, calls = [], sched_calls = [], lr = max_lr a, step = s, flag = 0,
       mean_loss = None, mean_depth_consistency_loss = None, mean_sparse_flow_loss = None,
       saved = [] \<rparr>"

text \<open>
  Lines 166 to 179: the first epoch and the initial state. The file system maps the paths
  that exist to the checkpoint they hold; \<^verbatim>\<open>Path(None)\<close> raises TypeError.
\<close>

definition restore ::
  "'w collab \<Rightarrow> args \<Rightarrow> (string \<rightharpoonup> 'w checkpoint) \<Rightarrow> 'w \<Rightarrow> error + (int \<times> 'w tstate)" where
  "restore T a fs w =
     (if load_trained_model a
      then (case trained_model_path a of
              None \<Rightarrow> Inl TypeError
            | Some p \<Rightarrow>
                (case fs p of
                   Some state \<Rightarrow>
                     Inr (ck_epoch state,
                          initial_state a (ck_step state) (load_state_dict T (ck_model state) w))
                 | None \<Rightarrow> Inl OSError))
      else Inr (0, initial_state a 0 w))"

text \<open>The script train.py.\<close>

definition train_main ::
  "'w collab \<Rightarrow> args \<Rightarrow> (string \<rightharpoonup> 'w checkpoint) \<Rightarrow> (int \<Rightarrow> batch list) \<Rightarrow> batch list \<Rightarrow> 'w
     \<Rightarrow> error + 'w tstate" where
  "train_main T a fs train_loader validation_loader w =
     (case restore T a fs w of
        Inl e \<Rightarrow> Inl e
      | Inr (epoch, st) \<Rightarrow>
          epoch_loop T a train_loader validation_loader [epoch..number_epoch a] st)"

section \<open>The evaluation program\<close>

text \<open>
  The script evaluate.py, lines 113 to 141: the checkpoint is loaded, then each image gives
  the depth map \<^verbatim>\<open>boundaries * predicted_depth_maps_1\<close>. The network runs in
  evaluation mode, a function of its own; a test batch is the colors and the boundary mask.
\<close>

definition evaluate_main ::
  "('w \<Rightarrow> tensor \<Rightarrow> tensor) \<Rightarrow> ('w \<Rightarrow> 'w \<Rightarrow> 'w) \<Rightarrow> (string \<rightharpoonup> 'w checkpoint) \<Rightarrow> string
     \<Rightarrow> (tensor \<times> plane) list \<Rightarrow> 'w \<Rightarrow> error + tensor list" where
  "evaluate_main model_eval load fs path test_loader w =
     (case fs path of
        Some state \<Rightarrow>
          (let w' = load (ck_model state) w
           in Inr (map (\<lambda>(colors, bd). boundaries_mul bd (model_eval w' (boundaries_mul bd colors)))
                     test_loader))
      | None \<Rightarrow> Inl OSError)"

section \<open>A small instance\<close>

text \<open>
  Collaborators for running the model on concrete data: the world counts the optimizer
  steps, the layers pass their first tensor on, and both loss functions return \<open>c\<close>.
\<close>

definition const_collab :: "pyfloat \<Rightarrow> nat collab" where
  "const_collab c =
     \<lparr> depth_estimation_model = (\<lambda>w t. t),
       depth_scaling_layer = (\<lambda>d s m. (d, [])),
       flow_from_depth_layer = (\<lambda>d bd t r k. d),
       depth_warping_layer = (\<lambda>d1 d2 bd t r k. (d1, [bd])),
       sparse_flow_loss_function = (\<lambda>x y m. c),
       depth_consistency_loss_function = (\<lambda>x y m k. c),
       zero_grad = (\<lambda>w. w),
       backward = (\<lambda>b dcw w. w),
       clip_grad_norm = (\<lambda>m w. w),
       optimizer_step = Suc,
       load_state_dict = (\<lambda>m w. m) \<rparr>"

definition unit_batch :: batch where
  "unit_batch =
     \<lparr> colors_1 = [[Fin (- 2)]], colors_2 = [[Fin 3]],
       sparse_depths_1 = [[Fin 1]], sparse_depths_2 = [[Fin 1]],
       sparse_depth_masks_1 = [[Fin 1]], sparse_depth_masks_2 = [[Fin 1]],
       sparse_flows_1 = [[Fin 1], [Fin 2]], sparse_flows_2 = [[Fin 3], [Fin 4]],
       sparse_flow_masks_1 = [[Fin 1]], sparse_flow_masks_2 = [[Fin 1]],
       boundaries = [Fin 1],
       rotations_1_wrt_2 = [], rotations_2_wrt_1 = [],
       translations_1_wrt_2 = [], translations_2_wrt_1 = [],
       intrinsics = [] \<rparr>"

text \<open>
  A batch whose boundary mask excludes its second pixel, for evaluating the masking.
\<close>

definition masked_batch :: batch where
  "masked_batch = unit_batch \<lparr> colors_1 := [[Fin 7, Fin 8]], sparse_flows_1 := [[Fin 1, Fin 2], [Fin 3, Fin 4]],
      sparse_flow_masks_1 := [[Fin 1, Fin 1]], boundaries := [Fin 1, Fin 0] \<rparr>"

text \<open>
  The two sequences of torch calls a training batch can make: the one of a batch with a
  non-finite loss, and the one of a batch whose gradient is applied.
\<close>

definition skip_block :: "call list" where
  "skip_block = [ZeroGrad, Backward, ZeroGrad, OptStep]"

definition update_block :: "call list" where
  "update_block = [ZeroGrad, Backward, ClipGradNorm (Fin 10), OptStep]"

text \<open>The three running means have all been assigned.\<close>

definition means_bound :: "'w tstate \<Rightarrow> bool" where
  "means_bound st =
     (mean_loss st \<noteq> None \<and> mean_depth_consistency_loss st \<noteq> None
      \<and> mean_sparse_flow_loss st \<noteq> None)"

section \<open>Facts about floats and tensors\<close>

lemma fmul_NaN: "fmul x NaN = NaN"
  by (cases x) simp_all

lemma fadd_NaN: "fadd x NaN = NaN"
  by (cases x) simp_all

lemma fadd_commute: "fadd x y = fadd y x"
  by (cases x; cases y) simp_all

lemma finite_average:
  "fmul (fmul (Fin k) (Fin (1 / 2))) (fadd (Fin x) (Fin y)) = Fin (k * ((x + y) / 2))"
  by simp

text \<open>
  The product with the boundary mask is elementwise: each value is multiplied by the mask
  value of its pixel, in every channel.
\<close>

lemma plane_mul_nth:
  assumes "i < length xs" and "i < length ys"
  shows "plane_mul xs ys ! i = fmul (xs ! i) (ys ! i)"
  using assms by (simp add: plane_mul_def)

lemma mul_boundaries_nth:
  assumes "c < length t" and "i < length (t ! c)" and "i < length bd"
  shows "mul_boundaries t bd ! c ! i = fmul (t ! c ! i) (bd ! i)"
  using assms by (simp add: mul_boundaries_def plane_mul_nth)

text \<open>
  The definitions that evaluate the model on the small instance.
\<close>

lemmas unit_defs =
  train_batch_def validation_batch_def Let_def
  train_forward_def validation_forward_def losses_of_depths_def const_collab_def
  unit_batch_def default_args_def initial_state_def depth_consistency_weight_def
  batch_step_def cyclic_lr_def do_zero_grad_def do_backward_def do_clip_grad_norm_def
  do_optimizer_step_def set_means_def read_means_def display_def save_model_def
  boundaries_mul_def mul_boundaries_def plane_mul_def torch_abs_def

section \<open>Warm-up weight and learning-rate schedule\<close>



text \<open>The schedule has period two half-cycles, rises on the first and falls on the second.\<close>

lemma cyclic_lr_periodic:
  "cyclic_lr lo hi h (it + 2 * h) = cyclic_lr lo hi h it"
  by (simp add: cyclic_lr_def)

lemma cyclic_lr_rising:
  assumes "0 \<le> it" and "it \<le> h" and "0 < h"
  shows "cyclic_lr lo hi h it = lo + (hi - lo) * (real_of_int it / real_of_int h)"
  using assms by (simp add: cyclic_lr_def)

lemma cyclic_lr_falling:
  assumes "h < it" and "it < 2 * h"
  shows "cyclic_lr lo hi h it = hi - (hi - lo) * (real_of_int (it - h) / real_of_int h)"
  using assms by (simp add: cyclic_lr_def)

text \<open>
  Claim C3. With the default rates 1e-4 and 1e-3 and the default half-cycle of 1000
  iterations, the cyclic rate is 1e-4 at iteration 0, 1e-3 at iteration 1000 and 1e-4 at
  iteration 2000; each batch of the training loop steps the scheduler once, with the
  cumulative counter \<^verbatim>\<open>step\<close>, and the rate is the schedule's value at that counter.
\<close>

theorem cyclic_lr_triangle:
  "cyclic_lr (min_lr (default_args n)) (max_lr (default_args n)) (num_iter (default_args n)) 0
     = 1 / 10000 \<and>
   cyclic_lr (min_lr (default_args n)) (max_lr (default_args n)) (num_iter (default_args n)) 1000
     = 1 / 1000 \<and>
   cyclic_lr (min_lr (default_args n)) (max_lr (default_args n)) (num_iter (default_args n)) 2000
     = 1 / 10000 \<and>
   lr (batch_step a st) = cyclic_lr (min_lr a) (max_lr a) (num_iter a) (step st) \<and>
   sched_calls (batch_step a st) = sched_calls st @ [step st]"
  by (simp add: cyclic_lr_def default_args_def batch_step_def)

section \<open>Losses of a frame pair\<close>

text \<open>
  Claim C4. In the training and in the validation pass, the sparse flow loss is
  \<^verbatim>\<open>sfl_weight * 0.5 * (l1 + l2)\<close>, where \<open>l1\<close> and \<open>l2\<close> are the sparse flow loss
  function on the inputs of direction 1 to 2 and of direction 2 to 1, and the depth
  consistency loss is \<^verbatim>\<open>weight * 0.5 * (d1 + d2)\<close>, where \<open>d1\<close> is the depth consistency
  loss function on view 1 with the depth warped in from view 2, and \<open>d2\<close> the same with
  the views exchanged.
\<close>

theorem losses_symmetric_weighted:
  assumes "f = train_forward T w sfw dcw b \<or> f = validation_forward T w sfw dcw b"
  shows "sparse_flow_loss f = fmul (fmul sfw (Fin (1 / 2))) (fadd (sfl_term_1 f) (sfl_term_2 f))
       \<and> sfl_term_1 f = sparse_flow_loss_function T
            (fst (sfl_input_1 f)) (fst (snd (sfl_input_1 f))) (snd (snd (sfl_input_1 f)))
       \<and> sfl_term_2 f = sparse_flow_loss_function T
            (fst (sfl_input_2 f)) (fst (snd (sfl_input_2 f))) (snd (snd (sfl_input_2 f)))
       \<and> depth_consistency_loss f
            = fmul (fmul dcw (Fin (1 / 2))) (fadd (dcl_term_1 f) (dcl_term_2 f))
       \<and> dcl_term_1 f = depth_consistency_loss_function T (scaled_depth_maps_1 f)
            (fst (depth_warping_layer T (scaled_depth_maps_1 f) (scaled_depth_maps_2 f)
                   (boundaries b) (translations_1_wrt_2 b) (rotations_1_wrt_2 b) (intrinsics b)))
            (snd (depth_warping_layer T (scaled_depth_maps_1 f) (scaled_depth_maps_2 f)
                   (boundaries b) (translations_1_wrt_2 b) (rotations_1_wrt_2 b) (intrinsics b)))
            (intrinsics b)
       \<and> dcl_term_2 f = depth_consistency_loss_function T (scaled_depth_maps_2 f)
            (fst (depth_warping_layer T (scaled_depth_maps_2 f) (scaled_depth_maps_1 f)
                   (boundaries b) (translations_2_wrt_1 b) (rotations_2_wrt_1 b) (intrinsics b)))
            (snd (depth_warping_layer T (scaled_depth_maps_2 f) (scaled_depth_maps_1 f)
                   (boundaries b) (translations_2_wrt_1 b) (rotations_2_wrt_1 b) (intrinsics b)))
            (intrinsics b)"
  using assms
  by (auto simp: train_forward_def validation_forward_def losses_of_depths_def Let_def)

theorem losses_symmetric_weighted_witness:
  "sparse_flow_loss (train_forward (const_collab (Fin 3)) 0 (Fin 20) (Fin 5) unit_batch)
     = Fin (20 * ((3 + 3) / 2)) \<and>
   depth_consistency_loss (train_forward (const_collab (Fin 3)) 0 (Fin 20) (Fin 5) unit_batch)
     = Fin (5 * ((3 + 3) / 2))"
proof -
  have t: "sfl_term_1 (train_forward (const_collab (Fin 3)) 0 (Fin 20) (Fin 5) unit_batch) = Fin 3"
    "sfl_term_2 (train_forward (const_collab (Fin 3)) 0 (Fin 20) (Fin 5) unit_batch) = Fin 3"
    "dcl_term_1 (train_forward (const_collab (Fin 3)) 0 (Fin 20) (Fin 5) unit_batch) = Fin 3"
    "dcl_term_2 (train_forward (const_collab (Fin 3)) 0 (Fin 20) (Fin 5) unit_batch) = Fin 3"
    by (simp_all add: unit_defs)
  from losses_symmetric_weighted [of "train_forward (const_collab (Fin 3)) 0 (Fin 20) (Fin 5) unit_batch"
      "const_collab (Fin 3)" 0 "Fin 20" "Fin 5" unit_batch]
  show ?thesis by (simp add: t)
qed

text \<open>
  Claim C5. In the training and in the validation pass, the three tensors handed to the
  sparse flow loss function in each direction are the sparse flows, the dense flows from
  depth and the sparse flow masks, each multiplied by the boundary mask; the colors handed to
  the network are multiplied by the boundary mask as well.
\<close>

theorem boundary_mask_before_losses:
  assumes "f = train_forward T w sfw dcw b \<or> f = validation_forward T w sfw dcw b"
  shows "sfl_input_1 f =
           (mul_boundaries (sparse_flows_1 b) (boundaries b),
            mul_boundaries (flow_from_depth_layer T (scaled_depth_maps_1 f) (boundaries b)
               (translations_1_wrt_2 b) (rotations_1_wrt_2 b) (intrinsics b)) (boundaries b),
            mul_boundaries (sparse_flow_masks_1 b) (boundaries b))
       \<and> sfl_input_2 f =
           (mul_boundaries (sparse_flows_2 b) (boundaries b),
            mul_boundaries (flow_from_depth_layer T (scaled_depth_maps_2 f) (boundaries b)
               (translations_2_wrt_1 b) (rotations_2_wrt_1 b) (intrinsics b)) (boundaries b),
            mul_boundaries (sparse_flow_masks_2 b) (boundaries b))
       \<and> net_input_1 f = boundaries_mul (boundaries b) (colors_1 b)
       \<and> net_input_2 f = boundaries_mul (boundaries b) (colors_2 b)
       \<and> sparse_flow_loss f = fmul (fmul sfw (Fin (1 / 2)))
           (fadd (sparse_flow_loss_function T (fst (sfl_input_1 f)) (fst (snd (sfl_input_1 f)))
                    (snd (snd (sfl_input_1 f))))
                 (sparse_flow_loss_function T (fst (sfl_input_2 f)) (fst (snd (sfl_input_2 f)))
                    (snd (snd (sfl_input_2 f)))))"
  using assms
  by (auto simp: train_forward_def validation_forward_def losses_of_depths_def Let_def)

theorem boundary_mask_before_losses_witness:
  "sfl_input_1 (train_forward (const_collab (Fin 3)) 0 (Fin 20) (Fin 5) masked_batch) =
     ([[Fin 1, Fin 0], [Fin 3, Fin 0]], [[Fin 7, Fin 0]], [[Fin 1, Fin 0]])
   \<and> net_input_1 (train_forward (const_collab (Fin 3)) 0 (Fin 20) (Fin 5) masked_batch)
       = [[Fin 7, Fin 0]]"
proof -
  have s: "scaled_depth_maps_1 (train_forward (const_collab (Fin 3)) 0 (Fin 20) (Fin 5) masked_batch)
      = [[Fin 7, Fin 0]]"
    by (simp add: unit_defs masked_batch_def)
  note r = boundary_mask_before_losses [OF disjI1 [OF refl],
      where T = "const_collab (Fin 3)" and w = 0 and sfw = "Fin 20" and dcw = "Fin 5"
        and b = masked_batch, unfolded s]
  have v: "mul_boundaries (sparse_flows_1 masked_batch) (boundaries masked_batch)
             = [[Fin 1, Fin 0], [Fin 3, Fin 0]]"
    "mul_boundaries (flow_from_depth_layer (const_collab (Fin 3)) [[Fin 7, Fin 0]]
         (boundaries masked_batch) (translations_1_wrt_2 masked_batch)
         (rotations_1_wrt_2 masked_batch) (intrinsics masked_batch)) (boundaries masked_batch)
             = [[Fin 7, Fin 0]]"
    "mul_boundaries (sparse_flow_masks_1 masked_batch) (boundaries masked_batch)
             = [[Fin 1, Fin 0]]"
    "boundaries_mul (boundaries masked_batch) (colors_1 masked_batch) = [[Fin 7, Fin 0]]"
    by (simp_all add: masked_batch_def unit_batch_def const_collab_def mul_boundaries_def
          boundaries_mul_def plane_mul_def)
  from r show ?thesis
    unfolding v by simp
qed

text \<open>\<^verbatim>\<open>torch.abs\<close> acts on every value of every channel, and what it does to a value.\<close>

lemma torch_abs_nth:
  assumes "c < length t" and "i < length (t ! c)"
  shows "torch_abs t ! c ! i = fabs (t ! c ! i)"
  using assms by (simp add: torch_abs_def)

lemma fabs_cases:
  "fabs v = (case v of Fin x \<Rightarrow> Fin \<bar>x\<bar> | PInf \<Rightarrow> PInf | NInf \<Rightarrow> PInf | NaN \<Rightarrow> NaN)"
  by (cases v) simp_all

text \<open>
  Claim C6. In the validation pass the depth scaling layer receives the absolute value of
  the network output; in the training pass it receives the network output itself. Value by
  value, what the scaling layer receives in validation is the absolute value of what it
  receives in training from the same weights and batch: a finite \<open>x\<close> becomes \<open>\<bar>x\<bar>\<close>,
  both infinities become the positive one, and NaN stays NaN.
\<close>

theorem validation_abs_before_scaling:
  "scaling_input_1 (validation_forward T w sfw dcw b)
     = torch_abs (depth_estimation_model T w (boundaries_mul (boundaries b) (colors_1 b))) \<and>
   scaling_input_2 (validation_forward T w sfw dcw b)
     = torch_abs (depth_estimation_model T w (boundaries_mul (boundaries b) (colors_2 b))) \<and>
   scaling_input_1 (train_forward T w sfw dcw b)
     = depth_estimation_model T w (boundaries_mul (boundaries b) (colors_1 b)) \<and>
   scaling_input_2 (train_forward T w sfw dcw b)
     = depth_estimation_model T w (boundaries_mul (boundaries b) (colors_2 b)) \<and>
   scaled_depth_maps_1 (validation_forward T w sfw dcw b)
     = fst (depth_scaling_layer T (scaling_input_1 (validation_forward T w sfw dcw b))
              (sparse_depths_1 b) (sparse_depth_masks_1 b)) \<and>
   scaled_depth_maps_2 (validation_forward T w sfw dcw b)
     = fst (depth_scaling_layer T (scaling_input_2 (validation_forward T w sfw dcw b))
              (sparse_depths_2 b) (sparse_depth_masks_2 b)) \<and>
   scaled_depth_maps_1 (train_forward T w sfw dcw b)
     = fst (depth_scaling_layer T (scaling_input_1 (train_forward T w sfw dcw b))
              (sparse_depths_1 b) (sparse_depth_masks_1 b)) \<and>
   scaled_depth_maps_2 (train_forward T w sfw dcw b)
     = fst (depth_scaling_layer T (scaling_input_2 (train_forward T w sfw dcw b))
              (sparse_depths_2 b) (sparse_depth_masks_2 b)) \<and>
   (\<forall>c i. c < length (scaling_input_1 (train_forward T w sfw dcw b))
        \<and> i < length (scaling_input_1 (train_forward T w sfw dcw b) ! c) \<longrightarrow>
      scaling_input_1 (validation_forward T w sfw dcw b) ! c ! i =
        (case scaling_input_1 (train_forward T w sfw dcw b) ! c ! i of
           Fin x \<Rightarrow> Fin \<bar>x\<bar> | PInf \<Rightarrow> PInf | NInf \<Rightarrow> PInf | NaN \<Rightarrow> NaN)) \<and>
   (\<forall>c i. c < length (scaling_input_2 (train_forward T w sfw dcw b))
        \<and> i < length (scaling_input_2 (train_forward T w sfw dcw b) ! c) \<longrightarrow>
      scaling_input_2 (validation_forward T w sfw dcw b) ! c ! i =
        (case scaling_input_2 (train_forward T w sfw dcw b) ! c ! i of
           Fin x \<Rightarrow> Fin \<bar>x\<bar> | PInf \<Rightarrow> PInf | NInf \<Rightarrow> PInf | NaN \<Rightarrow> NaN))"
proof -
  have s: "scaling_input_1 (validation_forward T w sfw dcw b)
       = torch_abs (scaling_input_1 (train_forward T w sfw dcw b))"
    "scaling_input_2 (validation_forward T w sfw dcw b)
       = torch_abs (scaling_input_2 (train_forward T w sfw dcw b))"
    by (simp_all add: train_forward_def validation_forward_def losses_of_depths_def Let_def)
  have e: "\<forall>c i. c < length t \<and> i < length (t ! c) \<longrightarrow>
      torch_abs t ! c ! i =
        (case t ! c ! i of Fin x \<Rightarrow> Fin \<bar>x\<bar> | PInf \<Rightarrow> PInf | NInf \<Rightarrow> PInf | NaN \<Rightarrow> NaN)" for t
    by (simp add: torch_abs_nth fabs_cases)
  have r: "scaling_input_1 (validation_forward T w sfw dcw b)
     = torch_abs (depth_estimation_model T w (boundaries_mul (boundaries b) (colors_1 b))) \<and>
   scaling_input_2 (validation_forward T w sfw dcw b)
     = torch_abs (depth_estimation_model T w (boundaries_mul (boundaries b) (colors_2 b))) \<and>
   scaling_input_1 (train_forward T w sfw dcw b)
     = depth_estimation_model T w (boundaries_mul (boundaries b) (colors_1 b)) \<and>
   scaling_input_2 (train_forward T w sfw dcw b)
     = depth_estimation_model T w (boundaries_mul (boundaries b) (colors_2 b)) \<and>
   scaled_depth_maps_1 (validation_forward T w sfw dcw b)
     = fst (depth_scaling_layer T (scaling_input_1 (validation_forward T w sfw dcw b))
              (sparse_depths_1 b) (sparse_depth_masks_1 b)) \<and>
   scaled_depth_maps_2 (validation_forward T w sfw dcw b)
     = fst (depth_scaling_layer T (scaling_input_2 (validation_forward T w sfw dcw b))
              (sparse_depths_2 b) (sparse_depth_masks_2 b)) \<and>
   scaled_depth_maps_1 (train_forward T w sfw dcw b)
     = fst (depth_scaling_layer T (scaling_input_1 (train_forward T w sfw dcw b))
              (sparse_depths_1 b) (sparse_depth_masks_1 b)) \<and>
   scaled_depth_maps_2 (train_forward T w sfw dcw b)
     = fst (depth_scaling_layer T (scaling_input_2 (train_forward T w sfw dcw b))
              (sparse_depths_2 b) (sparse_depth_masks_2 b))"
    by (simp add: train_forward_def validation_forward_def losses_of_depths_def Let_def)
  from e [of "scaling_input_1 (train_forward T w sfw dcw b)"]
       e [of "scaling_input_2 (train_forward T w sfw dcw b)"] r
  show ?thesis unfolding s [symmetric] by blast
qed

theorem validation_abs_before_scaling_witness:
  "(0::nat) < length (scaling_input_1
       (train_forward (const_collab (Fin 1)) 0 (Fin 20) (Fin 5) unit_batch)) \<and>
   (0::nat) < length (scaling_input_1
       (train_forward (const_collab (Fin 1)) 0 (Fin 20) (Fin 5) unit_batch) ! 0) \<and>
   scaling_input_1 (train_forward (const_collab (Fin 1)) 0 (Fin 20) (Fin 5) unit_batch) ! 0 ! 0
     = Fin (- 2) \<and>
   scaling_input_1 (validation_forward (const_collab (Fin 1)) 0 (Fin 20) (Fin 5) unit_batch) ! 0 ! 0
     = Fin 2"
proof -
  have t: "scaling_input_1 (train_forward (const_collab (Fin 1)) 0 (Fin 20) (Fin 5) unit_batch)
      = [[Fin (- 2)]]"
    by (simp add: unit_defs)
  note r = validation_abs_before_scaling [of "const_collab (Fin 1)" 0 "Fin 20" "Fin 5" unit_batch,
      unfolded t]
  then have "\<forall>c i. c < length [[Fin (- 2)]] \<and> i < length ([[Fin (- 2)]] ! c) \<longrightarrow>
      scaling_input_1 (validation_forward (const_collab (Fin 1)) 0 (Fin 20) (Fin 5) unit_batch)
        ! c ! i =
        (case [[Fin (- 2)]] ! c ! i of
           Fin x \<Rightarrow> Fin \<bar>x\<bar> | PInf \<Rightarrow> PInf | NInf \<Rightarrow> PInf | NaN \<Rightarrow> NaN)"
    by blast
  then have "scaling_input_1 (validation_forward (const_collab (Fin 1)) 0 (Fin 20) (Fin 5)
      unit_batch) ! 0 ! 0 = (case [[Fin (- 2)]] ! 0 ! 0 of
           Fin x \<Rightarrow> Fin \<bar>x\<bar> | PInf \<Rightarrow> PInf | NInf \<Rightarrow> PInf | NaN \<Rightarrow> NaN)"
    by simp
  then show ?thesis unfolding t by simp
qed

text \<open>
  On a negative prediction the two passes hand different tensors to the scaling layer.
\<close>

lemma abs_differs_on_negative:
  "scaling_input_1 (validation_forward (const_collab (Fin 1)) 0 (Fin 20) (Fin 5) unit_batch)
     = [[Fin 2]] \<and>
   scaling_input_1 (train_forward (const_collab (Fin 1)) 0 (Fin 20) (Fin 5) unit_batch)
     = [[Fin (- 2)]]"
  by (simp add: unit_defs)

section \<open>One training batch\<close>

lemma world_batch_step: "world (batch_step a st) = world st"
  by (simp add: batch_step_def)

text \<open>
  With a non-finite loss the batch always ends in the \<^verbatim>\<open>continue\<close> branch, whose state is
  the one before the batch except for the torch calls and the scheduler step.
\<close>

lemma train_batch_nonfinite:
  assumes "isnan (loss (train_forward T (world st) (sfl_weight a) dcw b))
           \<or> isinf (loss (train_forward T (world st) (sfl_weight a) dcw b))"
  shows "train_batch T a dcw batch b st =
           Inr (do_optimizer_step T (do_zero_grad T (do_backward T b dcw
                  (do_zero_grad T (batch_step a st)))))"
  using assms by (simp add: train_batch_def Let_def world_batch_step)

lemma nonfinite_state:
  "do_optimizer_step T (do_zero_grad T (do_backward T b dcw (do_zero_grad T (batch_step a st))))
   = st\<lparr> world := optimizer_step T (zero_grad T (backward T b dcw (zero_grad T (world st)))),
         calls := calls st @ [ZeroGrad, Backward, ZeroGrad, OptStep],
         sched_calls := sched_calls st @ [step st],
         lr := cyclic_lr (min_lr a) (max_lr a) (num_iter a) (step st) \<rparr>"
  by (simp add: do_optimizer_step_def do_zero_grad_def do_backward_def batch_step_def)

lemma finite_state:
  "do_optimizer_step T (do_clip_grad_norm T m (do_backward T b dcw
      (do_zero_grad T ((batch_step a st)\<lparr> flag := flag (batch_step a st) + 1 \<rparr>))))
   = st\<lparr> world := optimizer_step T (clip_grad_norm T m
                      (backward T b dcw (zero_grad T (world st)))),
         calls := calls st @ [ZeroGrad, Backward, ClipGradNorm m, OptStep],
         sched_calls := sched_calls st @ [step st],
         lr := cyclic_lr (min_lr a) (max_lr a) (num_iter a) (step st),
         flag := flag st + 1 \<rparr>"
  by (simp add: do_optimizer_step_def do_zero_grad_def do_backward_def do_clip_grad_norm_def
        batch_step_def)

text \<open>
  What the bookkeeping after the optimizer step leaves alone.
\<close>

lemma set_means_fields:
  "world (set_means f st) = world st" "calls (set_means f st) = calls st"
  "step (set_means f st) = step st" "sched_calls (set_means f st) = sched_calls st"
  "saved (set_means f st) = saved st" "flag (set_means f st) = flag st"
  by (simp_all add: set_means_def)

lemma update_means_fields:
  assumes "update_means batch f st = Inr st'"
  shows "world st' = world st \<and> calls st' = calls st \<and> step st' = step st
         \<and> sched_calls st' = sched_calls st \<and> saved st' = saved st \<and> flag st' = flag st"
  using assms by (auto simp: update_means_def split: option.splits)

lemma read_means_Inr: "read_means st = Inr st' \<Longrightarrow> st' = st"
  by (simp add: read_means_def split: if_splits)

lemma display_Inr: "display a st = Inr st' \<Longrightarrow> st' = st"
  by (simp add: display_def split: if_splits)

lemma train_batch_finite:
  assumes fin: "\<not> (isnan (loss (train_forward T (world st) (sfl_weight a) dcw b))
           \<or> isinf (loss (train_forward T (world st) (sfl_weight a) dcw b)))"
    and ok: "train_batch T a dcw batch b st = Inr st'"
  shows "world st' = optimizer_step T (clip_grad_norm T (Fin 10)
                      (backward T b dcw (zero_grad T (world st))))
       \<and> calls st' = calls st @ [ZeroGrad, Backward, ClipGradNorm (Fin 10), OptStep]
       \<and> step st' = step st + 1
       \<and> sched_calls st' = sched_calls st @ [step st]
       \<and> flag st' = flag st + 1
       \<and> saved st' = saved st"
proof -
  let ?f = "train_forward T (world st) (sfl_weight a) dcw b"
  let ?st3 = "do_optimizer_step T (do_clip_grad_norm T (Fin 10) (do_backward T b dcw
      (do_zero_grad T ((batch_step a st)\<lparr> flag := flag (batch_step a st) + 1 \<rparr>))))"
  from fin ok [unfolded train_batch_def Let_def world_batch_step] obtain st4 st5 where
    m: "(if batch = 0 \<or> flag ?st3 = 1 then Inr (set_means ?f ?st3)
         else update_means batch ?f ?st3) = Inr st4"
    and r: "read_means (st4\<lparr> step := step st4 + 1 \<rparr>) = Inr st5"
    and d: "display a st5 = Inr st'"
    by (auto split: sum.splits)
  from m have k: "world st4 = world ?st3 \<and> calls st4 = calls ?st3 \<and> step st4 = step ?st3
         \<and> sched_calls st4 = sched_calls ?st3 \<and> saved st4 = saved ?st3 \<and> flag st4 = flag ?st3"
    by (auto simp: set_means_fields dest: update_means_fields split: if_splits)
  from r d have e: "st' = st4\<lparr> step := step st4 + 1 \<rparr>"
    by (auto dest!: read_means_Inr display_Inr)
  show ?thesis
    unfolding e using k by (simp add: finite_state)
qed

lemma unit_nan_loss:
  "loss (train_forward (const_collab NaN) w sfw dcw unit_batch) = NaN"
  by (simp add: unit_defs fmul_NaN fadd_NaN)

lemma unit_fin_loss:
  "loss (train_forward (const_collab (Fin 1)) w (Fin 20) (Fin (1 / 10)) unit_batch) = Fin (201 / 10)"
  by (simp add: unit_defs)

lemma unit_fin_batch:
  "train_batch (const_collab (Fin 1)) (default_args 0) (Fin (1 / 10)) 0 unit_batch
      (initial_state (default_args 0) 0 0) =
   Inr \<lparr>world = 1,
        calls = [ZeroGrad, Backward, ClipGradNorm (Fin 10), OptStep],
        sched_calls = [0], lr = 1 / 10000, step = 1, flag = 1,
        mean_loss = Some (Fin (201 / 10)),
        mean_depth_consistency_loss = Some (Fin (1 / 10)),
        mean_sparse_flow_loss = Some (Fin 20),
        saved = []\<rparr>"
  by (simp add: unit_defs)

text \<open>
  Claim C1, as stated: a batch with a NaN or Inf loss skips the optimizer update and still
  increments \<^verbatim>\<open>step\<close>. It fails on the small instance with a NaN loss: from
  \<^verbatim>\<open>step = 7\<close> the batch does not end with \<^verbatim>\<open>step = 8\<close>, and the calls made to torch
  end with \<^verbatim>\<open>optimizer.step()\<close>.
\<close>

theorem nonfinite_loss_step_counterexample:
  "isnan (loss (train_forward (const_collab NaN) 0 (Fin 20) (Fin (1 / 10)) unit_batch)) \<and>
   step (initial_state (default_args 0) 7 (0::nat)) = 7 \<and>
   map_sum id step (train_batch (const_collab NaN) (default_args 0) (Fin (1 / 10)) 0 unit_batch
      (initial_state (default_args 0) 7 0)) \<noteq> Inr 8 \<and>
   map_sum id calls (train_batch (const_collab NaN) (default_args 0) (Fin (1 / 10)) 0 unit_batch
      (initial_state (default_args 0) 7 0)) = Inr [ZeroGrad, Backward, ZeroGrad, OptStep]"
  by (simp add: unit_defs)

text \<open>
  Claim C1, amended. A batch with a NaN or Inf loss never raises: the gradients are zeroed
  and the optimizer is stepped on the zeroed gradients, the scheduler has been stepped with
  the current counter, and \<^verbatim>\<open>step\<close> is left as it was. A batch with a finite loss that
  completes increments \<^verbatim>\<open>step\<close> by one.
\<close>

theorem nonfinite_loss_keeps_step:
  "(isnan (loss (train_forward T (world st) (sfl_weight a) dcw b))
      \<or> isinf (loss (train_forward T (world st) (sfl_weight a) dcw b)) \<longrightarrow>
    (\<exists>st'. train_batch T a dcw batch b st = Inr st' \<and> step st' = step st \<and>
       sched_calls st' = sched_calls st @ [step st] \<and>
       world st' = optimizer_step T (zero_grad T (backward T b dcw (zero_grad T (world st))))))
   \<and>
   (\<not> (isnan (loss (train_forward T (world st) (sfl_weight a) dcw b))
      \<or> isinf (loss (train_forward T (world st) (sfl_weight a) dcw b))) \<longrightarrow>
    (\<forall>st'. train_batch T a dcw batch b st = Inr st' \<longrightarrow> step st' = step st + 1))"
proof (intro conjI impI allI)
  assume n: "isnan (loss (train_forward T (world st) (sfl_weight a) dcw b))
      \<or> isinf (loss (train_forward T (world st) (sfl_weight a) dcw b))"
  show "\<exists>st'. train_batch T a dcw batch b st = Inr st' \<and> step st' = step st \<and>
       sched_calls st' = sched_calls st @ [step st] \<and>
       world st' = optimizer_step T (zero_grad T (backward T b dcw (zero_grad T (world st))))"
    by (simp add: train_batch_nonfinite [OF n] nonfinite_state)
next
  fix st'
  assume f: "\<not> (isnan (loss (train_forward T (world st) (sfl_weight a) dcw b))
      \<or> isinf (loss (train_forward T (world st) (sfl_weight a) dcw b)))"
    and r: "train_batch T a dcw batch b st = Inr st'"
  from train_batch_finite [OF f r] show "step st' = step st + 1"
    by simp
qed

theorem nonfinite_loss_keeps_step_witness:
  "isnan (loss (train_forward (const_collab NaN) 0 (Fin 20) (Fin (1 / 10)) unit_batch)) \<and>
   map_sum id step (train_batch (const_collab NaN) (default_args 0) (Fin (1 / 10)) 0 unit_batch
      (initial_state (default_args 0) 7 0)) = Inr 7 \<and>
   \<not> isnan (loss (train_forward (const_collab (Fin 1)) 0 (Fin 20) (Fin (1 / 10)) unit_batch)) \<and>
   map_sum id step (train_batch (const_collab (Fin 1)) (default_args 0) (Fin (1 / 10)) 0
      unit_batch (initial_state (default_args 0) 7 0)) = Inr 8"
proof -
  have w: "world (initial_state (default_args 0) 7 (0::nat)) = 0"
    "sfl_weight (default_args 0) = Fin 20" "step (initial_state (default_args 0) 7 (0::nat)) = 7"
    by (simp_all add: initial_state_def default_args_def)
  have r: "train_batch (const_collab (Fin 1)) (default_args 0) (Fin (1 / 10)) 0
      unit_batch (initial_state (default_args 0) 7 0) \<noteq> Inl e" for e
    by (simp add: unit_defs)
  from nonfinite_loss_keeps_step [of "const_collab NaN" "initial_state (default_args 0) 7 0"
      "default_args 0" "Fin (1 / 10)" unit_batch 0]
  have a: "map_sum id step (train_batch (const_collab NaN) (default_args 0) (Fin (1 / 10)) 0
      unit_batch (initial_state (default_args 0) 7 0)) = Inr 7"
    by (auto simp: w unit_nan_loss)
  from nonfinite_loss_keeps_step [of "const_collab (Fin 1)" "initial_state (default_args 0) 7 0"
      "default_args 0" "Fin (1 / 10)" unit_batch 0] r
  have b: "map_sum id step (train_batch (const_collab (Fin 1)) (default_args 0) (Fin (1 / 10)) 0
      unit_batch (initial_state (default_args 0) 7 0)) = Inr 8"
    by (cases "train_batch (const_collab (Fin 1)) (default_args 0) (Fin (1 / 10)) 0
      unit_batch (initial_state (default_args 0) 7 0)") (auto simp: w unit_fin_loss)
  show ?thesis using a b by (simp add: unit_nan_loss unit_fin_loss)
qed

text \<open>
  Claim C9. On a batch with a NaN or Inf loss the calls made to torch are
  \<^verbatim>\<open>zero_grad\<close>, \<^verbatim>\<open>backward\<close>, \<^verbatim>\<open>zero_grad\<close>, \<^verbatim>\<open>step\<close>, in this order: the
  optimizer step is executed, on zeroed gradients, and the state of torch after the batch is
  the result of these four calls.
\<close>

theorem nonfinite_loss_still_steps_optimizer:
  assumes "isnan (loss (train_forward T (world st) (sfl_weight a) dcw b))
      \<or> isinf (loss (train_forward T (world st) (sfl_weight a) dcw b))"
  shows "\<exists>st'. train_batch T a dcw batch b st = Inr st' \<and>
       calls st' = calls st @ [ZeroGrad, Backward, ZeroGrad, OptStep] \<and>
       world st' = optimizer_step T (zero_grad T (backward T b dcw (zero_grad T (world st))))"
  by (simp add: train_batch_nonfinite [OF assms] nonfinite_state)

theorem nonfinite_loss_still_steps_optimizer_witness:
  "isinf (loss (train_forward (const_collab PInf) 0 (Fin 20) (Fin (1 / 10)) unit_batch)) \<and>
   map_sum id calls (train_batch (const_collab PInf) (default_args 0) (Fin (1 / 10)) 0 unit_batch
      (initial_state (default_args 0) 7 0)) = Inr [ZeroGrad, Backward, ZeroGrad, OptStep] \<and>
   map_sum id world (train_batch (const_collab PInf) (default_args 0) (Fin (1 / 10)) 0 unit_batch
      (initial_state (default_args 0) 7 0)) = Inr 1"
proof -
  have l: "loss (train_forward (const_collab PInf) w (Fin 20) (Fin (1 / 10)) unit_batch) = PInf"
    for w
    by (simp add: unit_defs inf_times_def)
  have w: "world (initial_state (default_args 0) 7 (0::nat)) = 0"
    "sfl_weight (default_args 0) = Fin 20" "calls (initial_state (default_args 0) 7 (0::nat)) = []"
    by (simp_all add: initial_state_def default_args_def)
  have c: "optimizer_step (const_collab PInf) (zero_grad (const_collab PInf)
        (backward (const_collab PInf) unit_batch (Fin (1 / 10))
           (zero_grad (const_collab PInf) 0))) = 1"
    by (simp add: const_collab_def)
  from nonfinite_loss_still_steps_optimizer [of "const_collab PInf"
      "initial_state (default_args 0) 7 0" "default_args 0" "Fin (1 / 10)" unit_batch 0]
  show ?thesis
    by (auto simp: w l c)
qed

text \<open>
  Claim C10. On a batch with a finite loss the calls made to torch are \<^verbatim>\<open>zero_grad\<close>,
  \<^verbatim>\<open>backward\<close>, \<^verbatim>\<open>clip_grad_norm_\<close> with the bound 10.0, \<^verbatim>\<open>step\<close>, in this order:
  the optimizer step is applied to the clipped gradients.
\<close>

theorem finite_loss_clipped_step:
  assumes "\<not> (isnan (loss (train_forward T (world st) (sfl_weight a) dcw b))
      \<or> isinf (loss (train_forward T (world st) (sfl_weight a) dcw b)))"
    and "train_batch T a dcw batch b st = Inr st'"
  shows "calls st' = calls st @ [ZeroGrad, Backward, ClipGradNorm (Fin 10), OptStep] \<and>
         world st' = optimizer_step T (clip_grad_norm T (Fin 10)
                       (backward T b dcw (zero_grad T (world st))))"
  using train_batch_finite [OF assms] by simp

theorem finite_loss_clipped_step_witness:
  "\<not> (isnan (loss (train_forward (const_collab (Fin 1)) 0 (Fin 20) (Fin (1 / 10)) unit_batch))
      \<or> isinf (loss (train_forward (const_collab (Fin 1)) 0 (Fin 20) (Fin (1 / 10)) unit_batch)))
   \<and> map_sum id calls (train_batch (const_collab (Fin 1)) (default_args 0) (Fin (1 / 10)) 0
        unit_batch (initial_state (default_args 0) 0 0))
      = Inr [ZeroGrad, Backward, ClipGradNorm (Fin 10), OptStep]"
proof -
  have w: "world (initial_state (default_args 0) 0 (0::nat)) = 0"
    "sfl_weight (default_args 0) = Fin 20" "calls (initial_state (default_args 0) 0 (0::nat)) = []"
    by (simp_all add: initial_state_def default_args_def)
  have f: "\<not> (isnan (loss (train_forward (const_collab (Fin 1))
               (world (initial_state (default_args 0) 0 0)) (sfl_weight (default_args 0))
               (Fin (1 / 10)) unit_batch))
      \<or> isinf (loss (train_forward (const_collab (Fin 1))
               (world (initial_state (default_args 0) 0 0)) (sfl_weight (default_args 0))
               (Fin (1 / 10)) unit_batch)))"
    by (simp add: w unit_fin_loss)
  from finite_loss_clipped_step [OF f unit_fin_batch]
  show ?thesis by (simp add: unit_fin_batch unit_fin_loss)
qed

section \<open>The calls of a whole run\<close>

text \<open>
  Every training batch adds one of the two sequences of calls, and nothing else calls
  torch: in a run that completes, each optimizer step follows either the clipping of a
  finite batch or the zeroing of a skipped one.
\<close>

lemma train_batch_block:
  assumes "train_batch T a dcw batch b st = Inr st'"
  shows "calls st' = calls st @ skip_block \<or> calls st' = calls st @ update_block"
proof (cases "isnan (loss (train_forward T (world st) (sfl_weight a) dcw b))
           \<or> isinf (loss (train_forward T (world st) (sfl_weight a) dcw b))")
  case True
  from train_batch_nonfinite [OF True, of batch] assms show ?thesis
    by (simp add: nonfinite_state skip_block_def)
next
  case False
  from train_batch_finite [OF False assms] show ?thesis
    by (simp add: update_block_def)
qed

lemma train_batches_blocks:
  "train_batches T a dcw batch bs st = Inr st' \<Longrightarrow>
     \<exists>ks. calls st' = calls st @ concat ks \<and> set ks \<subseteq> {skip_block, update_block}
          \<and> length ks = length bs"
proof (induction bs arbitrary: batch st)
  case Nil
  then show ?case by simp
next
  case (Cons b bs)
  from Cons.prems obtain st1 where
    h: "train_batch T a dcw batch b st = Inr st1"
    and t: "train_batches T a dcw (batch + 1) bs st1 = Inr st'"
    by (auto split: sum.splits)
  from train_batch_block [OF h] obtain k where
    k: "calls st1 = calls st @ k" "k \<in> {skip_block, update_block}"
    by auto
  from Cons.IH [OF t] obtain ks where
    ks: "calls st' = calls st1 @ concat ks" "set ks \<subseteq> {skip_block, update_block}"
      "length ks = length bs"
    by auto
  from k ks have "calls st' = calls st @ concat (k # ks) \<and>
      set (k # ks) \<subseteq> {skip_block, update_block} \<and> length (k # ks) = length (b # bs)"
    by simp
  then show ?case by blast
qed

lemma train_batch_saved:
  assumes "train_batch T a dcw batch b st = Inr st'"
  shows "saved st' = saved st"
proof (cases "isnan (loss (train_forward T (world st) (sfl_weight a) dcw b))
           \<or> isinf (loss (train_forward T (world st) (sfl_weight a) dcw b))")
  case True
  from train_batch_nonfinite [OF True, of batch] assms show ?thesis
    by (simp add: nonfinite_state)
next
  case False
  from train_batch_finite [OF False assms] show ?thesis by simp
qed

lemma train_batches_saved:
  "train_batches T a dcw batch bs st = Inr st' \<Longrightarrow> saved st' = saved st"
proof (induction bs arbitrary: batch st)
  case Nil
  then show ?case by simp
next
  case (Cons b bs)
  then show ?case
    by (auto split: sum.splits dest: train_batch_saved)
qed

lemma validation_batch_fields:
  assumes "validation_batch T a dcw batch b st = Inr st'"
  shows "saved st' = saved st \<and> step st' = step st \<and> world st' = world st
         \<and> calls st' = calls st \<and> sched_calls st' = sched_calls st"
proof -
  let ?f = "validation_forward T (world st) (sfl_weight a) dcw b"
  from assms obtain st1 st2 where
    m: "(if \<not> isnan (loss ?f)
         then (if batch = 0 then Inr (set_means ?f st) else update_means batch ?f st)
         else Inr st) = Inr st1"
    and d: "display a st1 = Inr st2" and r: "read_means st2 = Inr st'"
    unfolding validation_batch_def Let_def by (auto split: sum.splits)
  from d r have "st' = st1" by (auto dest!: read_means_Inr display_Inr)
  with m show ?thesis
    by (auto simp: set_means_fields dest: update_means_fields split: if_splits)
qed

lemma validation_batches_fields:
  "validation_batches T a dcw batch bs st = Inr st' \<Longrightarrow>
     saved st' = saved st \<and> step st' = step st \<and> world st' = world st
     \<and> calls st' = calls st \<and> sched_calls st' = sched_calls st"
proof (induction bs arbitrary: batch st)
  case Nil
  then show ?case by simp
next
  case (Cons b bs)
  from Cons.prems obtain st1 where
    a: "validation_batch T a dcw batch b st = Inr st1"
    and b: "validation_batches T a dcw (batch + 1) bs st1 = Inr st'"
    by (auto split: sum.splits)
  from validation_batch_fields [OF a] Cons.IH [OF b] show ?case by simp
qed

lemma run_epoch_blocks:
  assumes "run_epoch T a train_loader validation_loader epoch st = Inr st'"
  shows "\<exists>ks. calls st' = calls st @ concat ks \<and> set ks \<subseteq> {skip_block, update_block}"
proof -
  let ?dcw = "depth_consistency_weight a epoch"
  from assms obtain st1 where
    t: "train_batches T a ?dcw 0 (train_loader epoch) st = Inr st1"
    and c: "calls st' = calls st1
            \<or> (\<exists>st2. validation_batches T a ?dcw 0 validation_loader st1 = Inr st2
                  \<and> calls st' = calls st2)"
    unfolding run_epoch_def Let_def
    by (auto split: sum.splits if_splits option.splits)
  from c have "calls st' = calls st1"
    by (auto dest: validation_batches_fields)
  with train_batches_blocks [OF t] show ?thesis by auto
qed

lemma epoch_loop_blocks:
  "epoch_loop T a train_loader validation_loader es st = Inr st' \<Longrightarrow>
     \<exists>ks. calls st' = calls st @ concat ks \<and> set ks \<subseteq> {skip_block, update_block}"
proof (induction es arbitrary: st)
  case Nil
  from Nil have "calls st' = calls st @ concat [] \<and> set [] \<subseteq> {skip_block, update_block}"
    by simp
  then show ?case by blast
next
  case (Cons e es)
  from Cons.prems obtain st1 where
    h: "run_epoch T a train_loader validation_loader e st = Inr st1"
    and t: "epoch_loop T a train_loader validation_loader es st1 = Inr st'"
    by (auto split: sum.splits)
  from run_epoch_blocks [OF h] obtain ks where
    ks: "calls st1 = calls st @ concat ks" "set ks \<subseteq> {skip_block, update_block}"
    by auto
  from Cons.IH [OF t] obtain ls where
    ls: "calls st' = calls st1 @ concat ls" "set ls \<subseteq> {skip_block, update_block}"
    by auto
  from ks ls have "calls st' = calls st @ concat (ks @ ls) \<and>
      set (ks @ ls) \<subseteq> {skip_block, update_block}"
    by simp
  then show ?case by blast
qed

lemma train_main_blocks:
  assumes "train_main T a fs train_loader validation_loader w = Inr st'"
  shows "\<exists>ks. calls st' = concat ks \<and> set ks \<subseteq> {skip_block, update_block}"
proof -
  from assms obtain epoch st where
    r: "restore T a fs w = Inr (epoch, st)"
    and l: "epoch_loop T a train_loader validation_loader [epoch..number_epoch a] st = Inr st'"
    by (auto simp: train_main_def split: sum.splits)
  from r have "calls st = []"
    by (auto simp: restore_def initial_state_def split: if_splits option.splits)
  with epoch_loop_blocks [OF l] show ?thesis by simp
qed

section \<open>Checkpoints\<close>

lemma run_epoch_saves:
  assumes ok: "run_epoch T a train_loader validation_loader epoch st = Inr st'"
    and due: "epoch mod validation_interval a = 0"
  shows "\<exists>v. saved st' = saved st @ [save_model (world st') (epoch + 1) (step st') v]"
proof -
  let ?dcw = "depth_consistency_weight a epoch"
  from ok due obtain st1 st2 v where
    t: "train_batches T a ?dcw 0 (train_loader epoch) st = Inr st1"
    and vb: "validation_batches T a ?dcw 0 validation_loader st1 = Inr st2"
    and e: "st' = st2\<lparr> saved := saved st2 @ [save_model (world st2) (epoch + 1) (step st2) v] \<rparr>"
    unfolding run_epoch_def Let_def
    by (auto split: sum.splits if_splits option.splits)
  from train_batches_saved [OF t] validation_batches_fields [OF vb] e
  show ?thesis by auto
qed

lemma restore_found:
  assumes "load_trained_model a" and "trained_model_path a = Some p" and "fs p = Some ck"
  shows "train_main T a fs train_loader validation_loader w =
           epoch_loop T a train_loader validation_loader [ck_epoch ck..number_epoch a]
             (initial_state a (ck_step ck) (load_state_dict T (ck_model ck) w))"
  using assms by (simp add: train_main_def restore_def)

lemma unit_run:
  "run_epoch (const_collab (Fin 1)) (default_args 0) (\<lambda>e. [unit_batch]) [unit_batch] 0
     (initial_state (default_args 0) 0 0) =
   Inr \<lparr>world = 1,
        calls = [ZeroGrad, Backward, ClipGradNorm (Fin 10), OptStep],
        sched_calls = [0], lr = 1 / 10000, step = 1, flag = 1,
        mean_loss = Some (Fin (201 / 10)),
        mean_depth_consistency_loss = Some (Fin (1 / 10)),
        mean_sparse_flow_loss = Some (Fin 20),
        saved =
          [\<lparr>ck_model = 1, ck_epoch = 1, ck_step = 1,
              ck_validation_loss = Fin 20\<rparr>]\<rparr>"
  by (simp add: run_epoch_def train_batch_def validation_batch_def Let_def
      train_forward_def validation_forward_def losses_of_depths_def const_collab_def
      unit_batch_def default_args_def initial_state_def depth_consistency_weight_def
      batch_step_def cyclic_lr_def do_zero_grad_def do_backward_def do_clip_grad_norm_def
      do_optimizer_step_def set_means_def read_means_def display_def save_model_def
      boundaries_mul_def mul_boundaries_def plane_mul_def torch_abs_def)

text \<open>
  Claim C7. An epoch that reaches the end of its validation writes a checkpoint holding
  the epoch number plus one and the current step count; training started from that
  checkpoint runs the epoch loop from the saved epoch, with \<^verbatim>\<open>step\<close> at the saved count,
  so that the first scheduler step is made with the saved count.
\<close>

theorem checkpoint_resume:
  assumes ok: "run_epoch T a train_loader validation_loader epoch st = Inr st'"
    and due: "epoch mod validation_interval a = 0"
    and load: "load_trained_model a'"
    and path: "trained_model_path a' = Some p"
    and held: "fs p = Some (last (saved st'))"
  shows "ck_epoch (last (saved st')) = epoch + 1 \<and>
         ck_step (last (saved st')) = step st' \<and>
         train_main T a' fs train_loader' validation_loader' w =
           epoch_loop T a' train_loader' validation_loader' [epoch + 1..number_epoch a']
             (initial_state a' (step st') (load_state_dict T (world st') w)) \<and>
         step (initial_state a' (step st') (load_state_dict T (world st') w)) = step st' \<and>
         sched_calls (batch_step a'
             (initial_state a' (step st') (load_state_dict T (world st') w))) = [step st']"
proof -
  from run_epoch_saves [OF ok due] obtain v where
    s: "saved st' = saved st @ [save_model (world st') (epoch + 1) (step st') v]" ..
  then have l: "last (saved st') = save_model (world st') (epoch + 1) (step st') v"
    by simp
  have c: "ck_epoch (last (saved st')) = epoch + 1" "ck_step (last (saved st')) = step st'"
    "ck_model (last (saved st')) = world st'"
    by (simp_all add: l save_model_def)
  from load path held
  have "train_main T a' fs train_loader' validation_loader' w =
           epoch_loop T a' train_loader' validation_loader'
             [ck_epoch (last (saved st'))..number_epoch a']
             (initial_state a' (ck_step (last (saved st')))
                (load_state_dict T (ck_model (last (saved st'))) w))"
    by (rule restore_found)
  then show ?thesis
    by (simp add: c initial_state_def batch_step_def)
qed

theorem checkpoint_resume_witness:
  "map_sum id (\<lambda>s. map ck_epoch (saved s))
     (run_epoch (const_collab (Fin 1)) (default_args 0) (\<lambda>e. [unit_batch]) [unit_batch] 0
        (initial_state (default_args 0) 0 0)) = Inr [1] \<and>
   train_main (const_collab (Fin 1))
       ((default_args 3) \<lparr> load_trained_model := True, trained_model_path := Some ''ckpt'' \<rparr>)
       [''ckpt'' \<mapsto> \<lparr> ck_model = 1, ck_epoch = 1, ck_step = 1, ck_validation_loss = Fin 20 \<rparr>]
       (\<lambda>e. []) [] 5 =
     epoch_loop (const_collab (Fin 1))
       ((default_args 3) \<lparr> load_trained_model := True, trained_model_path := Some ''ckpt'' \<rparr>)
       (\<lambda>e. []) [] [1, 2, 3]
       (initial_state
          ((default_args 3) \<lparr> load_trained_model := True, trained_model_path := Some ''ckpt'' \<rparr>)
          1 1)"
proof -
  let ?a' = "(default_args 3) \<lparr> load_trained_model := True, trained_model_path := Some ''ckpt'' \<rparr>"
  let ?ck = "\<lparr> ck_model = 1::nat, ck_epoch = 1, ck_step = 1, ck_validation_loss = Fin 20 \<rparr>"
  let ?fs = "[''ckpt'' \<mapsto> ?ck]"
  have d: "(0::int) mod validation_interval (default_args 0) = 0"
    by (simp add: default_args_def)
  have l: "load_trained_model ?a'" and p: "trained_model_path ?a' = Some ''ckpt''"
    by simp_all
  have h: "?fs ''ckpt'' = Some (last (saved \<lparr>world = 1,
        calls = [ZeroGrad, Backward, ClipGradNorm (Fin 10), OptStep],
        sched_calls = [0], lr = 1 / 10000, step = 1, flag = 1,
        mean_loss = Some (Fin (201 / 10)),
        mean_depth_consistency_loss = Some (Fin (1 / 10)),
        mean_sparse_flow_loss = Some (Fin 20),
        saved = [?ck]\<rparr>))"
    by simp
  let ?S = "\<lparr>world = 1::nat,
        calls = [ZeroGrad, Backward, ClipGradNorm (Fin 10), OptStep],
        sched_calls = [0], lr = 1 / 10000, step = 1, flag = 1,
        mean_loss = Some (Fin (201 / 10)),
        mean_depth_consistency_loss = Some (Fin (1 / 10)),
        mean_sparse_flow_loss = Some (Fin 20),
        saved = [?ck]\<rparr>"
  have e: "[(0::int) + 1..number_epoch ?a'] = [1, 2, 3]"
    "load_state_dict (const_collab (Fin 1)) (world ?S) 5 = 1"
    "step ?S = 1"
    by (simp_all add: default_args_def upto_rec1 const_collab_def)
  note r = checkpoint_resume [where fs = ?fs and p = "''ckpt''" and a' = ?a'
      and train_loader' = "\<lambda>e. []" and validation_loader' = "[]" and w = 5,
      OF unit_run d l p h, unfolded e]
  have s: "map_sum id (\<lambda>s. map ck_epoch (saved s))
     (run_epoch (const_collab (Fin 1)) (default_args 0) (\<lambda>e. [unit_batch]) [unit_batch] 0
        (initial_state (default_args 0) 0 0)) = Inr [1]"
    by (simp add: unit_run)
  from r s show ?thesis by blast
qed

section \<open>Fatal errors\<close>

text \<open>
  A checkpoint that is asked for and does not exist raises OSError, in training and in
  evaluation; a non-finite loss in a training batch does not raise.
\<close>

lemma missing_checkpoint_train:
  assumes "load_trained_model a" and "trained_model_path a = Some p" and "fs p = None"
  shows "train_main T a fs train_loader validation_loader w = Inl OSError"
  using assms by (simp add: train_main_def restore_def)

lemma missing_checkpoint_evaluate:
  assumes "fs p = None"
  shows "evaluate_main model_eval load fs p test_loader w = Inl OSError"
  using assms by (simp add: evaluate_main_def)

lemma train_batch_nonfinite_continues:
  assumes "isnan (loss (train_forward T (world st) (sfl_weight a) dcw b))
           \<or> isinf (loss (train_forward T (world st) (sfl_weight a) dcw b))"
  shows "\<exists>st'. train_batch T a dcw batch b st = Inr st'"
  by (simp add: train_batch_nonfinite [OF assms])

text \<open>
  The training loop of an epoch does not raise on any losses, finite or not, as long as the
  display interval is not zero: a running mean is read only after a batch with a finite
  loss has assigned it.
\<close>

lemma means_bound_set_means: "means_bound (set_means f st)"
  by (simp add: means_bound_def set_means_def)

lemma update_means_bound:
  assumes "means_bound st"
  shows "\<exists>st'. update_means batch f st = Inr st' \<and> means_bound st'"
  using assms by (auto simp: means_bound_def update_means_def)

lemma read_means_bound: "means_bound st \<Longrightarrow> read_means st = Inr st"
  by (simp add: means_bound_def read_means_def)

lemma means_bound_step: "means_bound (st\<lparr> step := s \<rparr>) = means_bound st"
  by (simp add: means_bound_def)

lemma train_batch_returns:
  assumes d: "display_interval a \<noteq> 0"
    and i: "flag st \<noteq> 0 \<longrightarrow> means_bound st"
  shows "\<exists>st'. train_batch T a dcw batch b st = Inr st' \<and> (flag st' \<noteq> 0 \<longrightarrow> means_bound st')"
proof (cases "isnan (loss (train_forward T (world st) (sfl_weight a) dcw b))
           \<or> isinf (loss (train_forward T (world st) (sfl_weight a) dcw b))")
  case True
  from i show ?thesis
    by (simp add: train_batch_nonfinite [OF True] nonfinite_state means_bound_def)
next
  case False
  let ?f = "train_forward T (world st) (sfl_weight a) dcw b"
  let ?st3 = "do_optimizer_step T (do_clip_grad_norm T (Fin 10) (do_backward T b dcw
      (do_zero_grad T ((batch_step a st)\<lparr> flag := flag (batch_step a st) + 1 \<rparr>))))"
  have m: "means_bound ?st3 = means_bound st" and g: "flag ?st3 = flag st + 1"
    by (simp_all add: finite_state means_bound_def)
  have "\<exists>st4. (if batch = 0 \<or> flag ?st3 = 1 then Inr (set_means ?f ?st3)
         else update_means batch ?f ?st3) = Inr st4 \<and> means_bound st4"
  proof (cases "batch = 0 \<or> flag ?st3 = 1")
    case True
    then show ?thesis by (simp add: means_bound_set_means)
  next
    case False
    with g have "flag st \<noteq> 0" by simp
    with i m have "means_bound ?st3" by simp
    from update_means_bound [OF this, of batch ?f] False show ?thesis by simp
  qed
  then obtain st4 where
    u: "(if batch = 0 \<or> flag ?st3 = 1 then Inr (set_means ?f ?st3)
         else update_means batch ?f ?st3) = Inr st4"
    and b4: "means_bound st4"
    by blast
  from b4 have r: "read_means (st4\<lparr> step := step st4 + 1 \<rparr>) = Inr (st4\<lparr> step := step st4 + 1 \<rparr>)"
    by (simp add: read_means_bound means_bound_step)
  from False u r d
  have "train_batch T a dcw batch b st = Inr (st4\<lparr> step := step st4 + 1 \<rparr>)"
    unfolding train_batch_def Let_def world_batch_step
    by (simp add: display_def)
  with b4 show ?thesis by (simp add: means_bound_step)
qed

lemma train_batches_returns:
  assumes "display_interval a \<noteq> 0"
  shows "flag st \<noteq> 0 \<longrightarrow> means_bound st \<Longrightarrow>
     \<exists>st'. train_batches T a dcw batch bs st = Inr st' \<and> (flag st' \<noteq> 0 \<longrightarrow> means_bound st')"
proof (induction bs arbitrary: batch st)
  case Nil
  then show ?case by simp
next
  case (Cons b bs)
  from train_batch_returns [OF assms Cons.prems, of T dcw batch b] obtain st1 where
    h: "train_batch T a dcw batch b st = Inr st1" and i: "flag st1 \<noteq> 0 \<longrightarrow> means_bound st1"
    by blast
  from Cons.IH [OF i, of "batch + 1"] h show ?case by simp
qed

text \<open>
  Claim C8. The claim that a numeric anomaly in a batch never aborts training fails on the
  run of one epoch whose only training batch and only validation batch have a NaN loss: no
  running mean has been assigned when the validation loop logs them, and the script ends in
  NameError.
\<close>

theorem numeric_anomaly_aborts:
  "train_main (const_collab NaN) (default_args 0) Map.empty (\<lambda>e. [unit_batch]) [unit_batch] 0
     = Inl NameError"
  by (simp add: train_main_def restore_def run_epoch_def train_batch_def validation_batch_def
      Let_def train_forward_def validation_forward_def losses_of_depths_def const_collab_def
      unit_batch_def default_args_def initial_state_def depth_consistency_weight_def
      batch_step_def cyclic_lr_def do_zero_grad_def do_backward_def do_clip_grad_norm_def
      do_optimizer_step_def set_means_def read_means_def display_def save_model_def
      boundaries_mul_def mul_boundaries_def plane_mul_def torch_abs_def)

end
